theory Spec2Isabelle
  imports Complex_Main
begin

section \<open>Two readings of the numbers\<close>

text \<open>
  The program computes with JavaScript numbers, that is with binary64 values. Two models
  are used here, and every statement says which one it is about.

  \<^item> The exact model: numbers are mathematical reals, \<open>Math.sqrt\<close>, \<open>Math.sin\<close>,
    \<open>Math.cos\<close>, \<open>Math.sinh\<close>, \<open>Math.cosh\<close> and \<open>Math.exp\<close> are the real functions and
    \<open>Math.pow(x, 2)\<close> is the square. It has no rounding, no overflow to infinity and no
    NaN, and a quotient by zero is zero, so the guard of \<open>div\<close> changes nothing in it. It
    is used for the branch taken and for evaluations at parameters of ordinary size,
    where rounding moves the values in the sixteenth digit and the statements leave
    a margin of at least one half.
  \<^item> The binary64 model: a number is NaN, an infinity or a finite value with a sign
    (so that \<open>+0\<close> and \<open>-0\<close> differ); \<open>+\<close>, \<open>-\<close>, \<open>*\<close>, \<open>/\<close> round to nearest with ties
    to even, overflow to infinity and underflow to zero, and follow the rules for signed
    zeros, infinities and NaN; \<open>===\<close> and \<open><\<close> are false on NaN. The results of the
    \<open>Math\<close> functions, which the language leaves to the implementation, are parameters.
    It is used for \<open>div\<close> and for the degeneracy guard.
\<close>

section \<open>Exact model: data\<close>

text \<open>\<open>interface Complex { re: number; im: number }\<close>\<close>

record Complex_num =
  re :: real
  im :: real

text \<open>
  \<open>interface SimulationParams\<close>, the first declaration of the types module (its text
  follows the separator in \<open>src/components/QuantumCanvas.tsx\<close>, lines 154--159).
\<close>

record SimulationParams =
  energy :: real
  barrierHeight :: real
  barrierWidth :: real
  mass :: real

text \<open>
  \<open>interface WaveCoefficients\<close> of the same module (lines 161--170). The fields \<open>r\<close>,
  \<open>t\<close>, \<open>c1\<close>, \<open>c2\<close> have the inline type \<open>{ re: number; im: number }\<close>.
\<close>

record WaveCoefficients =
  r :: Complex_num
  t :: Complex_num
  c1 :: Complex_num
  c2 :: Complex_num
  k1 :: real
  k2 :: real
  isTunneling :: bool
  transmissionProb :: real

text \<open>The object \<open>{ real, prob, V }\<close> returned by \<open>getWaveFunctionAt\<close>.\<close>

record WaveSample =
  real_w :: real
  prob :: real
  V :: real

section \<open>Exact model: complex arithmetic helpers\<close>

definition add :: "Complex_num \<Rightarrow> Complex_num \<Rightarrow> Complex_num" where
  "add a b = \<lparr>re = re a + re b, im = im a + im b\<rparr>"

definition sub :: "Complex_num \<Rightarrow> Complex_num \<Rightarrow> Complex_num" where
  "sub a b = \<lparr>re = re a - re b, im = im a - im b\<rparr>"

definition mul :: "Complex_num \<Rightarrow> Complex_num \<Rightarrow> Complex_num" where
  "mul a b = \<lparr>re = re a * re b - im a * im b, im = re a * im b + im a * re b\<rparr>"

text \<open>
  \<open>div\<close>, lines 9--16. In the exact model the guard is kept as written, but it decides
  nothing: the squared modulus is zero only for \<open>b = 0\<close>, and there the quotients are
  zero as well. What the guard does is stated on \<open>div64\<close>.
\<close>

definition div_c :: "Complex_num \<Rightarrow> Complex_num \<Rightarrow> Complex_num" where
  "div_c a b =
     (let denom = re b * re b + im b * im b
      in if denom = 0 then \<lparr>re = 0, im = 0\<rparr>
         else \<lparr>re = (re a * re b + im a * im b) / denom,
               im = (im a * re b - re a * im b) / denom\<rparr>)"

definition exp_c :: "Complex_num \<Rightarrow> Complex_num" where
  "exp_c a = (let ea = exp (re a) in \<lparr>re = ea * cos (im a), im = ea * sin (im a)\<rparr>)"

text \<open>Reading a pair of reals as a complex number, and its squared modulus.\<close>

definition to_complex :: "Complex_num \<Rightarrow> complex" where
  "to_complex a = Complex (re a) (im a)"

definition norm2 :: "Complex_num \<Rightarrow> real" where
  "norm2 a = re a * re a + im a * im a"

section \<open>Exact model: the barrier solver\<close>

definition hbar :: real where
  "hbar = 1"

text \<open>Lines 26--29: the guard against the singularity at \<open>E = V0\<close>.\<close>

definition perturbedEnergy :: "SimulationParams \<Rightarrow> real" where
  "perturbedEnergy params =
     (let E = energy params; V0 = barrierHeight params
      in if \<bar>E - V0\<bar> < 1 / 10 ^ 4 then E + 1 / 10 ^ 3 else E)"

text \<open>
  Lines 43--78: the branch \<open>E < V0\<close>, with \<open>E\<close> already perturbed. The record fields
  \<open>r\<close>, \<open>t\<close>, \<open>c1\<close>, \<open>c2\<close> and \<open>k1\<close> are constants here, so the local variables of
  the same name carry a \<open>v\<close>: \<open>rv\<close>, \<open>tv\<close>, \<open>c1v\<close>, \<open>c2v\<close>, \<open>k1v\<close>.
\<close>

definition tunnelingCase :: "real \<Rightarrow> real \<Rightarrow> real \<Rightarrow> real \<Rightarrow> real \<Rightarrow> WaveCoefficients" where
  "tunnelingCase E V0 L m k1v =
     (let kappa = sqrt (2 * m * (V0 - E)) / hbar;
          term = (V0 * V0 * (sinh (kappa * L)) ^ 2) / (4 * E * (V0 - E));
          T_prob = 1 / (1 + term);
          kappaL = kappa * L;
          coshKL = cosh kappaL;
          sinhKL = sinh kappaL;
          gamma = (k1v * k1v - kappa * kappa) / (2 * k1v * kappa);
          D = \<lparr>re = coshKL, im = - gamma * sinhKL\<rparr>;
          num = \<lparr>re = cos (- k1v * L), im = sin (- k1v * L)\<rparr>;
          tv = div_c num D;
          gamma_plus = (kappa * kappa + k1v * k1v) / (2 * k1v * kappa);
          r_num = \<lparr>re = 0, im = gamma_plus * sinhKL\<rparr>;
          rv = div_c r_num D;
          onePlusR = add \<lparr>re = 1, im = 0\<rparr> rv;
          term2 = mul \<lparr>re = 0, im = k1v / kappa\<rparr> (sub \<lparr>re = 1, im = 0\<rparr> rv);
          twoC2 = add onePlusR term2;
          twoC1 = sub onePlusR term2;
          c2v = \<lparr>re = re twoC2 / 2, im = im twoC2 / 2\<rparr>;
          c1v = \<lparr>re = re twoC1 / 2, im = im twoC1 / 2\<rparr>
      in \<lparr>r = rv, t = tv, c1 = c1v, c2 = c2v, k1 = k1v, k2 = kappa,
          isTunneling = True, transmissionProb = T_prob\<rparr>)"

text \<open>Lines 81--120: the branch \<open>E \<ge> V0\<close>.\<close>

definition scatteringCase :: "real \<Rightarrow> real \<Rightarrow> real \<Rightarrow> real \<Rightarrow> real \<Rightarrow> WaveCoefficients" where
  "scatteringCase E V0 L m k1v =
     (let k_prime = sqrt (2 * m * (E - V0)) / hbar;
          T_prob = (if k_prime = 0 then 0
                    else 1 / (1 + (V0 * V0 * (sin (k_prime * L)) ^ 2) / (4 * E * (E - V0))));
          kL = k_prime * L;
          cosKL = cos kL;
          sinKL = sin kL;
          gamma = (k1v * k1v + k_prime * k_prime) / (2 * k1v * k_prime);
          D = \<lparr>re = cosKL, im = - gamma * sinKL\<rparr>;
          num_t = \<lparr>re = cos (- k1v * L), im = sin (- k1v * L)\<rparr>;
          tv = div_c num_t D;
          gamma_minus = (k1v * k1v - k_prime * k_prime) / (2 * k1v * k_prime);
          num_r = \<lparr>re = 0, im = gamma_minus * sinKL\<rparr>;
          rv = div_c num_r D;
          term2 = mul \<lparr>re = k1v / k_prime, im = 0\<rparr> (sub \<lparr>re = 1, im = 0\<rparr> rv);
          onePlusR = add \<lparr>re = 1, im = 0\<rparr> rv;
          twoC1 = add onePlusR term2;
          twoC2 = sub onePlusR term2;
          c1v = \<lparr>re = re twoC1 / 2, im = im twoC1 / 2\<rparr>;
          c2v = \<lparr>re = re twoC2 / 2, im = im twoC2 / 2\<rparr>
      in \<lparr>r = rv, t = tv, c1 = c1v, c2 = c2v, k1 = k1v, k2 = k_prime,
          isTunneling = False, transmissionProb = T_prob\<rparr>)"

definition solveSchrodinger :: "SimulationParams \<Rightarrow> WaveCoefficients" where
  "solveSchrodinger params =
     (let V0 = barrierHeight params; L = barrierWidth params; m = mass params;
          E = perturbedEnergy params;
          k1v = sqrt (2 * m * E) / hbar
      in if E < V0 then tunnelingCase E V0 L m k1v else scatteringCase E V0 L m k1v)"

section \<open>Exact model: the wave sampler\<close>

text \<open>
  \<open>getWaveFunctionAt\<close> is split along its local variables: \<open>spatialPsi\<close> is the value
  of \<open>psi\<close> and \<open>potentialAt\<close> the value of \<open>V\<close> after the region test of lines
  134--167, \<open>psiT_at\<close> is \<open>psiT\<close> of line 170.
\<close>

definition spatialPsi :: "real \<Rightarrow> SimulationParams \<Rightarrow> WaveCoefficients \<Rightarrow> Complex_num" where
  "spatialPsi x params coeffs =
     (let L = barrierWidth params
      in if x < 0 then
           (let inc = \<lparr>re = cos (k1 coeffs * x), im = sin (k1 coeffs * x)\<rparr>;
                refArg = - k1 coeffs * x;
                refPart = mul (r coeffs) \<lparr>re = cos refArg, im = sin refArg\<rparr>
            in add inc refPart)
         else if x \<ge> 0 \<and> x \<le> L then
           (if isTunneling coeffs then
              (let term1 = mul (c1 coeffs) \<lparr>re = exp (- k2 coeffs * x), im = 0\<rparr>;
                   term2 = mul (c2 coeffs) \<lparr>re = exp (k2 coeffs * x), im = 0\<rparr>
               in add term1 term2)
            else
              (let arg1 = k2 coeffs * x;
                   term1 = mul (c1 coeffs) \<lparr>re = cos arg1, im = sin arg1\<rparr>;
                   arg2 = - k2 coeffs * x;
                   term2 = mul (c2 coeffs) \<lparr>re = cos arg2, im = sin arg2\<rparr>
               in add term1 term2))
         else
           (let arg = k1 coeffs * x
            in mul (t coeffs) \<lparr>re = cos arg, im = sin arg\<rparr>))"


text \<open>
  Lines 130--132 and 170: the spatial part times \<open>e^{-iEt}\<close>, with \<open>E\<close> the energy of
  \<open>params\<close> as passed in (the guard of the solver is not applied here).
\<close>

definition psiT_at :: "real \<Rightarrow> real \<Rightarrow> SimulationParams \<Rightarrow> WaveCoefficients \<Rightarrow> Complex_num" where
  "psiT_at x time params coeffs =
     (let omega = energy params;
          timePhase = \<lparr>re = cos (- omega * time), im = sin (- omega * time)\<rparr>
      in mul (spatialPsi x params coeffs) timePhase)"


section \<open>Binary64 model\<close>

text \<open>
  A binary64 value: NaN, an infinity with its sign, or a finite value with its sign and
  magnitude (\<open>True\<close> is the minus sign; \<open>Fin True 0\<close> is \<open>-0\<close>). The finite values of the
  format are those whose magnitude is \<open>n * 2^e\<close> with \<open>n < 2^53\<close> and
  \<open>-1074 \<le> e \<le> 971\<close>; every operation below returns such a value.
\<close>

datatype number = NaN | Inf bool | Fin bool real

text \<open>
  Rounding to nearest, ties to even: \<open>quantum x\<close> is the spacing of the format at the
  magnitude \<open>x\<close> (\<open>2^-1074\<close> below \<open>2^-1022\<close>), \<open>round_even\<close> rounds the multiple of the
  spacing, and a magnitude of at least \<open>2^1024 - 2^970\<close> rounds to infinity.
\<close>

definition round_even :: "real \<Rightarrow> int" where
  "round_even q =
     (let f = \<lfloor>q\<rfloor>; d = q - of_int f
      in if d < 1 / 2 then f else if 1 / 2 < d then f + 1 else if even f then f else f + 1)"

definition quantum :: "real \<Rightarrow> real" where
  "quantum x = (if x < 1 / 2 ^ 1022 then 1 / 2 ^ 1074 else 2 powr (of_int \<lfloor>log 2 x\<rfloor> - 52))"

definition round64 :: "bool \<Rightarrow> real \<Rightarrow> number" where
  "round64 s x =
     (if 2 ^ 1024 - 2 ^ 970 \<le> x then Inf s
      else Fin s (of_int (round_even (x / quantum x)) * quantum x))"



text \<open>The arithmetic operators, \<open>===\<close> and \<open><\<close> on numbers.\<close>

definition signed :: "bool \<Rightarrow> real \<Rightarrow> real" where
  "signed s m = (if s then - m else m)"

fun num_neg :: "number \<Rightarrow> number" where
  "num_neg NaN = NaN"
| "num_neg (Inf sa) = Inf (\<not> sa)"
| "num_neg (Fin sa ma) = Fin (\<not> sa) ma"

fun num_mul :: "number \<Rightarrow> number \<Rightarrow> number" where
  "num_mul NaN y = NaN"
| "num_mul x NaN = NaN"
| "num_mul (Inf sa) (Inf sb) = Inf (sa \<noteq> sb)"
| "num_mul (Inf sa) (Fin sb mb) = (if mb = 0 then NaN else Inf (sa \<noteq> sb))"
| "num_mul (Fin sa ma) (Inf sb) = (if ma = 0 then NaN else Inf (sa \<noteq> sb))"
| "num_mul (Fin sa ma) (Fin sb mb) = round64 (sa \<noteq> sb) (ma * mb)"

fun num_add :: "number \<Rightarrow> number \<Rightarrow> number" where
  "num_add NaN y = NaN"
| "num_add x NaN = NaN"
| "num_add (Inf sa) (Inf sb) = (if sa = sb then Inf sa else NaN)"
| "num_add (Inf sa) (Fin sb mb) = Inf sa"
| "num_add (Fin sa ma) (Inf sb) = Inf sb"
| "num_add (Fin sa ma) (Fin sb mb) =
     (let v = signed sa ma + signed sb mb
      in if v = 0 then Fin (sa \<and> sb) 0 else round64 (v < 0) \<bar>v\<bar>)"

definition num_sub :: "number \<Rightarrow> number \<Rightarrow> number" where
  "num_sub x y = num_add x (num_neg y)"

fun num_div :: "number \<Rightarrow> number \<Rightarrow> number" where
  "num_div NaN y = NaN"
| "num_div x NaN = NaN"
| "num_div (Inf sa) (Inf sb) = NaN"
| "num_div (Inf sa) (Fin sb mb) = Inf (sa \<noteq> sb)"
| "num_div (Fin sa ma) (Inf sb) = Fin (sa \<noteq> sb) 0"
| "num_div (Fin sa ma) (Fin sb mb) =
     (if mb = 0 then (if ma = 0 then NaN else Inf (sa \<noteq> sb))
      else round64 (sa \<noteq> sb) (ma / mb))"

fun strict_eq :: "number \<Rightarrow> number \<Rightarrow> bool" where
  "strict_eq NaN y = False"
| "strict_eq x NaN = False"
| "strict_eq (Inf sa) (Inf sb) = (sa = sb)"
| "strict_eq (Inf sa) (Fin sb mb) = False"
| "strict_eq (Fin sa ma) (Inf sb) = False"
| "strict_eq (Fin sa ma) (Fin sb mb) = (signed sa ma = signed sb mb)"

text \<open>\<open>interface Complex\<close> and the helpers \<open>add\<close>, \<open>sub\<close>, \<open>mul\<close>, \<open>div\<close> (lines 4--16).\<close>

record Complex64 =
  re64 :: number
  im64 :: number

definition denom64 :: "Complex64 \<Rightarrow> number" where
  "denom64 b = num_add (num_mul (re64 b) (re64 b)) (num_mul (im64 b) (im64 b))"

definition div64 :: "Complex64 \<Rightarrow> Complex64 \<Rightarrow> Complex64" where
  "div64 a b =
     (let denom = denom64 b
      in if strict_eq denom (Fin False 0) then \<lparr>re64 = Fin False 0, im64 = Fin False 0\<rparr>
         else \<lparr>re64 = num_div (num_add (num_mul (re64 a) (re64 b)) (num_mul (im64 a) (im64 b))) denom,
               im64 = num_div (num_sub (num_mul (im64 a) (re64 b)) (num_mul (re64 a) (im64 b))) denom\<rparr>)"

















section \<open>Concrete parameter sets\<close>


text \<open>
  A tunneling parameter set with \<open>k1 = kappa = 1\<close>, used to evaluate the wavefunction at
  the right edge of the barrier.
\<close>

definition jumpScenario :: SimulationParams where
  "jumpScenario = \<lparr>energy = 1 / 2, barrierHeight = 1, barrierWidth = 1, mass = 1\<rparr>"


section \<open>Exact model: complex arithmetic\<close>

lemma norm2_mul: "norm2 (mul a b) = norm2 a * norm2 b"
  by (simp add: norm2_def mul_def algebra_simps)

lemma to_complex_mul: "to_complex (mul a b) = to_complex a * to_complex b"
  by (simp add: to_complex_def mul_def complex_eq_iff)

lemma unit_phase_norm2: "norm2 \<lparr>re = cos a, im = sin a\<rparr> = 1"
  by (simp add: norm2_def power2_eq_square [symmetric])

lemma quot_minus:
  fixes d :: real
  assumes "d \<noteq> 0" and "x * p - y * q = a * d"
  shows "x / d * p - y / d * q = a"
proof -
  have "x / d * p - y / d * q = (x * p - y * q) / d"
    using assms(1) by (simp add: field_simps)
  then show ?thesis using assms by simp
qed

lemma quot_plus:
  fixes d :: real
  assumes "d \<noteq> 0" and "x * p + y * q = a * d"
  shows "x / d * p + y / d * q = a"
proof -
  have "x / d * p + y / d * q = (x * p + y * q) / d"
    using assms(1) by (simp add: field_simps)
  then show ?thesis using assms by simp
qed

lemma div_c_mul:
  assumes nz: "re b * re b + im b * im b \<noteq> 0"
  shows "mul (div_c a b) b = a"
proof -
  define d where "d = re b * re b + im b * im b"
  have d: "d \<noteq> 0" using nz by (simp add: d_def)
  have n1: "(re a * re b + im a * im b) * re b - (im a * re b - re a * im b) * im b = re a * d"
    unfolding d_def by (simp add: algebra_simps)
  have n2: "(re a * re b + im a * im b) * im b + (im a * re b - re a * im b) * re b = im a * d"
    unfolding d_def by (simp add: algebra_simps)
  note 1 = quot_minus [OF d n1] and 2 = quot_plus [OF d n2]
  show ?thesis
    using d 1 2 unfolding div_c_def mul_def Let_def d_def [symmetric] by simp
qed

section \<open>Binary64 model: complex division\<close>




text \<open>
  The computed squared modulus is also zero for some \<open>b\<close> that are not: both squares of
  \<open>b = 2^-538\<close> underflow, and \<open>div\<close> returns the zero sentinel for every \<open>a\<close>.
\<close>

lemma div64_underflow_sentinel:
  "div64 a \<lparr>re64 = Fin False (1 / 2 ^ 538), im64 = Fin False 0\<rparr>
     = \<lparr>re64 = Fin False 0, im64 = Fin False 0\<rparr>"
  by (simp add: div64_def denom64_def Let_def round64_def quantum_def round_even_def signed_def)

section \<open>Exact model: the identities behind the probabilities\<close>

text \<open>
  In exact arithmetic the formulas of both branches satisfy \<open>|r|^2 + T = 1\<close>,
  \<open>|t|^2 = T\<close> and \<open>0 < T \<le> 1\<close> for \<open>E > 0\<close>, \<open>V0 \<ge> 0\<close>, \<open>m > 0\<close> (lemma
  \<open>solver_probabilities\<close>). These are identities of the formulas. They say nothing about
  the binary64 values the program returns, which depend on the rounding of the \<open>Math\<close>
  functions and are NaN where \<open>sinh\<close>, \<open>cosh\<close> or a product overflows.
\<close>

lemma norm2_div:
  assumes "norm2 b \<noteq> 0"
  shows "norm2 (div_c a b) = norm2 a / norm2 b"
proof -
  have "mul (div_c a b) b = a"
    using assms by (intro div_c_mul) (simp add: norm2_def)
  then have "norm2 (div_c a b) * norm2 b = norm2 a"
    using norm2_mul [of "div_c a b" b] by simp
  then show ?thesis
    using assms by (simp add: field_simps)
qed

lemma gamma_sq_diff:
  fixes k q :: real
  assumes "k \<noteq> 0" and "q \<noteq> 0"
  shows "((q * q + k * k) / (2 * k * q)) ^ 2 = 1 + ((k * k - q * q) / (2 * k * q)) ^ 2"
proof -
  have "(q * q + k * k) ^ 2 = (2 * k * q) ^ 2 + (k * k - q * q) ^ 2"
    by (simp add: power2_eq_square algebra_simps)
  then have "(q * q + k * k) ^ 2 / (2 * k * q) ^ 2
             = ((2 * k * q) ^ 2 + (k * k - q * q) ^ 2) / (2 * k * q) ^ 2"
    by simp
  also have "\<dots> = 1 + (k * k - q * q) ^ 2 / (2 * k * q) ^ 2"
    using assms by (simp add: add_divide_distrib)
  finally show ?thesis
    by (simp add: power_divide)
qed

lemma gamma_closed_form:
  fixes k q m E W S n :: real
  assumes kk: "k * k = 2 * m * E" and qq: "q * q = 2 * m * W" and "m \<noteq> 0"
    and n: "n = 2 * m * S"
  shows "(n / (2 * k * q)) ^ 2 = S * S / (4 * E * W)"
proof -
  have den: "(2 * k * q) ^ 2 = 4 * (k * k) * (q * q)"
    by (simp add: power2_eq_square algebra_simps)
  have "(n / (2 * k * q)) ^ 2 = n ^ 2 / (2 * k * q) ^ 2"
    by (simp only: power_divide)
  also have "\<dots> = (2 * m * S) ^ 2 / (4 * (2 * m * E) * (2 * m * W))"
    by (simp only: n den kk qq)
  also have "\<dots> = (2 * m) ^ 2 * (S * S) / ((2 * m) ^ 2 * (4 * E * W))"
    by (simp add: power2_eq_square algebra_simps)
  also have "\<dots> = S * S / (4 * E * W)"
    using \<open>m \<noteq> 0\<close> by (simp only: mult_divide_mult_cancel_left_if) simp
  finally show ?thesis .
qed

text \<open>The algebra shared by both branches: amplitudes over a denominator of squared
  modulus \<open>1 + g\<close>.\<close>

lemma amplitudes_over_D:
  assumes D: "norm2 D = 1 + g" and g: "0 \<le> g"
    and rn: "norm2 rnum = g" and tn: "norm2 tnum = 1"
  shows "norm2 (div_c rnum D) + 1 / (1 + g) = 1"
    and "norm2 (div_c tnum D) = 1 / (1 + g)"
proof -
  have nz: "norm2 D \<noteq> 0" using D g by simp
  have pos: "1 + g \<noteq> 0" using g by simp
  show "norm2 (div_c tnum D) = 1 / (1 + g)"
    by (simp add: norm2_div [OF nz] D tn)
  have "norm2 (div_c rnum D) + 1 / (1 + g) = g / (1 + g) + 1 / (1 + g)"
    by (simp add: norm2_div [OF nz] D rn)
  also have "\<dots> = (g + 1) / (1 + g)"
    by (simp only: add_divide_distrib)
  also have "\<dots> = 1"
    using pos by (simp add: add.commute)
  finally show "norm2 (div_c rnum D) + 1 / (1 + g) = 1" .
qed

lemma tunneling_fields:
  "r (tunnelingCase E V0 L m k) =
     div_c \<lparr>re = 0, im = (sqrt (2 * m * (V0 - E)) * sqrt (2 * m * (V0 - E)) + k * k)
                          / (2 * k * sqrt (2 * m * (V0 - E))) * sinh (sqrt (2 * m * (V0 - E)) * L)\<rparr>
           \<lparr>re = cosh (sqrt (2 * m * (V0 - E)) * L),
            im = - ((k * k - sqrt (2 * m * (V0 - E)) * sqrt (2 * m * (V0 - E)))
                          / (2 * k * sqrt (2 * m * (V0 - E)))) * sinh (sqrt (2 * m * (V0 - E)) * L)\<rparr>"
  "t (tunnelingCase E V0 L m k) =
     div_c \<lparr>re = cos (- k * L), im = sin (- k * L)\<rparr>
           \<lparr>re = cosh (sqrt (2 * m * (V0 - E)) * L),
            im = - ((k * k - sqrt (2 * m * (V0 - E)) * sqrt (2 * m * (V0 - E)))
                          / (2 * k * sqrt (2 * m * (V0 - E)))) * sinh (sqrt (2 * m * (V0 - E)) * L)\<rparr>"
  "transmissionProb (tunnelingCase E V0 L m k) =
     1 / (1 + V0 * V0 * (sinh (sqrt (2 * m * (V0 - E)) * L)) ^ 2 / (4 * E * (V0 - E)))"
  by (simp_all only: tunnelingCase_def Let_def hbar_def div_by_1 WaveCoefficients.select_convs)


lemma tunneling_probabilities:
  assumes E: "0 < E" and V: "E < V0" and m: "0 < m" and k: "k = sqrt (2 * m * E) / hbar"
  shows "norm2 (r (tunnelingCase E V0 L m k)) + transmissionProb (tunnelingCase E V0 L m k) = 1"
    and "norm2 (t (tunnelingCase E V0 L m k)) = transmissionProb (tunnelingCase E V0 L m k)"
    and "0 < transmissionProb (tunnelingCase E V0 L m k)"
    and "transmissionProb (tunnelingCase E V0 L m k) \<le> 1"
proof -
  define q where "q = sqrt (2 * m * (V0 - E))"
  define s where "s = sinh (q * L)"
  define c where "c = cosh (q * L)"
  define gp where "gp = (q * q + k * k) / (2 * k * q)"
  define gm where "gm = (k * k - q * q) / (2 * k * q)"
  define g where "g = V0 * V0 * s ^ 2 / (4 * E * (V0 - E))"
  have kk: "k * k = 2 * m * E"
    using E m by (simp add: k hbar_def)
  have qq: "q * q = 2 * m * (V0 - E)"
    using V m by (simp add: q_def)
  have kpos: "k \<noteq> 0" using E m by (simp add: k hbar_def)
  have qpos: "q \<noteq> 0" using V m by (simp add: q_def)
  have gp2: "gp ^ 2 = V0 * V0 / (4 * E * (V0 - E))"
    unfolding gp_def
    by (rule gamma_closed_form [OF kk qq]) (use m in \<open>simp_all add: kk qq algebra_simps\<close>)
  have gpm: "gp ^ 2 = 1 + gm ^ 2"
    unfolding gp_def gm_def by (rule gamma_sq_diff [OF kpos qpos])
  have g_eq: "g = gp ^ 2 * s ^ 2"
    by (simp add: g_def gp2)
  have g0: "0 \<le> g"
    by (simp add: g_eq)
  have c2: "c ^ 2 = s ^ 2 + 1"
    by (simp add: c_def s_def cosh_square_eq)
  have D: "norm2 \<lparr>re = c, im = - gm * s\<rparr> = 1 + g"
  proof -
    have "norm2 \<lparr>re = c, im = - gm * s\<rparr> = c ^ 2 + gm ^ 2 * s ^ 2"
      by (simp add: norm2_def power2_eq_square algebra_simps)
    also have "\<dots> = 1 + (1 + gm ^ 2) * s ^ 2"
      by (simp add: c2 algebra_simps)
    finally show ?thesis
      by (simp add: g_eq gpm)
  qed
  have rn: "norm2 \<lparr>re = 0, im = gp * s\<rparr> = g"
    by (simp add: norm2_def g_eq power2_eq_square algebra_simps)
  have tn: "norm2 \<lparr>re = cos (- k * L), im = sin (- k * L)\<rparr> = 1"
    by (rule unit_phase_norm2)
  have rf: "r (tunnelingCase E V0 L m k) = div_c \<lparr>re = 0, im = gp * s\<rparr> \<lparr>re = c, im = - gm * s\<rparr>"
    by (simp only: tunneling_fields gp_def gm_def s_def c_def q_def)
  have tf: "t (tunnelingCase E V0 L m k)
            = div_c \<lparr>re = cos (- k * L), im = sin (- k * L)\<rparr> \<lparr>re = c, im = - gm * s\<rparr>"
    by (simp only: tunneling_fields gp_def gm_def s_def c_def q_def)
  have Tf: "transmissionProb (tunnelingCase E V0 L m k) = 1 / (1 + g)"
    by (simp only: tunneling_fields g_def s_def q_def)
  show "norm2 (r (tunnelingCase E V0 L m k)) + transmissionProb (tunnelingCase E V0 L m k) = 1"
    unfolding rf Tf by (rule amplitudes_over_D(1) [OF D g0 rn tn])
  show "norm2 (t (tunnelingCase E V0 L m k)) = transmissionProb (tunnelingCase E V0 L m k)"
    unfolding tf Tf by (rule amplitudes_over_D(2) [OF D g0 rn tn])
  show "0 < transmissionProb (tunnelingCase E V0 L m k)"
    unfolding Tf using g0 by simp
  show "transmissionProb (tunnelingCase E V0 L m k) \<le> 1"
    unfolding Tf using g0 by (simp add: field_simps)
qed


lemma scattering_fields:
  "r (scatteringCase E V0 L m k) =
     div_c \<lparr>re = 0, im = (k * k - sqrt (2 * m * (E - V0)) * sqrt (2 * m * (E - V0)))
                          / (2 * k * sqrt (2 * m * (E - V0))) * sin (sqrt (2 * m * (E - V0)) * L)\<rparr>
           \<lparr>re = cos (sqrt (2 * m * (E - V0)) * L),
            im = - ((k * k + sqrt (2 * m * (E - V0)) * sqrt (2 * m * (E - V0)))
                          / (2 * k * sqrt (2 * m * (E - V0)))) * sin (sqrt (2 * m * (E - V0)) * L)\<rparr>"
  "t (scatteringCase E V0 L m k) =
     div_c \<lparr>re = cos (- k * L), im = sin (- k * L)\<rparr>
           \<lparr>re = cos (sqrt (2 * m * (E - V0)) * L),
            im = - ((k * k + sqrt (2 * m * (E - V0)) * sqrt (2 * m * (E - V0)))
                          / (2 * k * sqrt (2 * m * (E - V0)))) * sin (sqrt (2 * m * (E - V0)) * L)\<rparr>"
  "transmissionProb (scatteringCase E V0 L m k) =
     (if sqrt (2 * m * (E - V0)) = 0 then 0
      else 1 / (1 + V0 * V0 * (sin (sqrt (2 * m * (E - V0)) * L)) ^ 2 / (4 * E * (E - V0))))"
  by (simp_all only: scatteringCase_def Let_def hbar_def div_by_1 WaveCoefficients.select_convs)

lemma scattering_probabilities:
  assumes E: "0 < E" and V: "V0 < E" and m: "0 < m" and k: "k = sqrt (2 * m * E) / hbar"
  shows "norm2 (r (scatteringCase E V0 L m k)) + transmissionProb (scatteringCase E V0 L m k) = 1"
    and "norm2 (t (scatteringCase E V0 L m k)) = transmissionProb (scatteringCase E V0 L m k)"
    and "0 < transmissionProb (scatteringCase E V0 L m k)"
    and "transmissionProb (scatteringCase E V0 L m k) \<le> 1"
proof -
  define q where "q = sqrt (2 * m * (E - V0))"
  define s where "s = sin (q * L)"
  define c where "c = cos (q * L)"
  define gp where "gp = (k * k + q * q) / (2 * k * q)"
  define gm where "gm = (k * k - q * q) / (2 * k * q)"
  define g where "g = V0 * V0 * s ^ 2 / (4 * E * (E - V0))"
  have kk: "k * k = 2 * m * E"
    using E m by (simp add: k hbar_def)
  have qq: "q * q = 2 * m * (E - V0)"
    using V m by (simp add: q_def)
  have kpos: "k \<noteq> 0" using E m by (simp add: k hbar_def)
  have qpos: "q \<noteq> 0" using V m by (simp add: q_def)
  have gm2: "gm ^ 2 = V0 * V0 / (4 * E * (E - V0))"
    unfolding gm_def
    by (rule gamma_closed_form [OF kk qq]) (use m in \<open>simp_all add: kk qq algebra_simps\<close>)
  have gpm: "gp ^ 2 = 1 + gm ^ 2"
    unfolding gp_def gm_def add.commute [of "k * k" "q * q"]
    by (rule gamma_sq_diff [OF kpos qpos])
  have g_eq: "g = gm ^ 2 * s ^ 2"
    by (simp add: g_def gm2)
  have g0: "0 \<le> g"
    by (simp add: g_eq)
  have c2: "c ^ 2 = 1 - s ^ 2"
    by (simp add: c_def s_def cos_squared_eq)
  have D: "norm2 \<lparr>re = c, im = - gp * s\<rparr> = 1 + g"
  proof -
    have "norm2 \<lparr>re = c, im = - gp * s\<rparr> = c ^ 2 + gp ^ 2 * s ^ 2"
      by (simp add: norm2_def power2_eq_square algebra_simps)
    also have "\<dots> = 1 + gm ^ 2 * s ^ 2"
      by (simp add: c2 gpm algebra_simps)
    finally show ?thesis
      by (simp add: g_eq)
  qed
  have rn: "norm2 \<lparr>re = 0, im = gm * s\<rparr> = g"
    by (simp add: norm2_def g_eq power2_eq_square algebra_simps)
  have tn: "norm2 \<lparr>re = cos (- k * L), im = sin (- k * L)\<rparr> = 1"
    by (rule unit_phase_norm2)
  have rf: "r (scatteringCase E V0 L m k) = div_c \<lparr>re = 0, im = gm * s\<rparr> \<lparr>re = c, im = - gp * s\<rparr>"
    by (simp only: scattering_fields gp_def gm_def s_def c_def q_def)
  have tf: "t (scatteringCase E V0 L m k)
            = div_c \<lparr>re = cos (- k * L), im = sin (- k * L)\<rparr> \<lparr>re = c, im = - gp * s\<rparr>"
    by (simp only: scattering_fields gp_def gm_def s_def c_def q_def)
  have Tf: "transmissionProb (scatteringCase E V0 L m k) = 1 / (1 + g)"
    using qpos by (simp only: scattering_fields g_def s_def q_def if_False)
  show "norm2 (r (scatteringCase E V0 L m k)) + transmissionProb (scatteringCase E V0 L m k) = 1"
    unfolding rf Tf by (rule amplitudes_over_D(1) [OF D g0 rn tn])
  show "norm2 (t (scatteringCase E V0 L m k)) = transmissionProb (scatteringCase E V0 L m k)"
    unfolding tf Tf by (rule amplitudes_over_D(2) [OF D g0 rn tn])
  show "0 < transmissionProb (scatteringCase E V0 L m k)"
    unfolding Tf using g0 by simp
  show "transmissionProb (scatteringCase E V0 L m k) \<le> 1"
    unfolding Tf using g0 by (simp add: field_simps)
qed

text \<open>For valid parameters the guard leaves a positive energy different from \<open>V0\<close>.\<close>

lemma perturbedEnergy_valid:
  assumes "0 < energy params" and "0 \<le> barrierHeight params"
  shows "0 < perturbedEnergy params" and "perturbedEnergy params \<noteq> barrierHeight params"
  using assms by (auto simp add: perturbedEnergy_def Let_def split: if_splits)

lemma solveSchrodinger_branch:
  "solveSchrodinger params =
     (if perturbedEnergy params < barrierHeight params
      then tunnelingCase (perturbedEnergy params) (barrierHeight params) (barrierWidth params)
             (mass params) (sqrt (2 * mass params * perturbedEnergy params) / hbar)
      else scatteringCase (perturbedEnergy params) (barrierHeight params) (barrierWidth params)
             (mass params) (sqrt (2 * mass params * perturbedEnergy params) / hbar))"
  by (simp add: solveSchrodinger_def Let_def)

lemma solver_probabilities:
  assumes "0 < energy params" and "0 \<le> barrierHeight params"
    and "0 < barrierWidth params" and "0 < mass params"
  shows "norm2 (r (solveSchrodinger params)) + transmissionProb (solveSchrodinger params) = 1"
    and "norm2 (t (solveSchrodinger params)) = transmissionProb (solveSchrodinger params)"
    and "0 < transmissionProb (solveSchrodinger params)"
    and "transmissionProb (solveSchrodinger params) \<le> 1"
proof -
  define E where "E = perturbedEnergy params"
  have E: "0 < E" and ne: "E \<noteq> barrierHeight params"
    using perturbedEnergy_valid [OF assms(1,2)] by (simp_all add: E_def)
  have "norm2 (r (solveSchrodinger params)) + transmissionProb (solveSchrodinger params) = 1
      \<and> norm2 (t (solveSchrodinger params)) = transmissionProb (solveSchrodinger params)
      \<and> 0 < transmissionProb (solveSchrodinger params)
      \<and> transmissionProb (solveSchrodinger params) \<le> 1"
  proof (cases "E < barrierHeight params")
    case True
    then have eq: "solveSchrodinger params =
        tunnelingCase E (barrierHeight params) (barrierWidth params) (mass params)
          (sqrt (2 * mass params * E) / hbar)"
      by (simp add: solveSchrodinger_branch E_def)
    show ?thesis
      unfolding eq using tunneling_probabilities [OF E True assms(4) refl] by simp
  next
    case False
    then have gt: "barrierHeight params < E" using ne by simp
    have eq: "solveSchrodinger params =
        scatteringCase E (barrierHeight params) (barrierWidth params) (mass params)
          (sqrt (2 * mass params * E) / hbar)"
      using False by (simp add: solveSchrodinger_branch E_def)
    show ?thesis
      unfolding eq using scattering_probabilities [OF E gt assms(4) refl] by simp
  qed
  then show "norm2 (r (solveSchrodinger params)) + transmissionProb (solveSchrodinger params) = 1"
    and "norm2 (t (solveSchrodinger params)) = transmissionProb (solveSchrodinger params)"
    and "0 < transmissionProb (solveSchrodinger params)"
    and "transmissionProb (solveSchrodinger params) \<le> 1"
    by simp_all
qed

section \<open>The degeneracy guard and the branch taken\<close>


























text \<open>
  The scenario \<open>E = 6.0001\<close>, \<open>V0 = 6.0\<close> sits on the edge of the window. In exact
  arithmetic \<open>|E - V0| = 1e-4\<close> is not below \<open>1e-4\<close> and the guard stays silent. The
  binary64 number that the literal \<open>6.0001\<close> denotes is \<open>6 + 28147497671 / 2^48\<close>, which
  lies \<open>2.3e-16\<close> below; there the guard fires. Which of the two the running program
  sees is decided by rounding, and so is the finiteness of its results: both are outside
  the exact model, and the finiteness of the coefficients depends on what the \<open>Math\<close>
  functions return, which the binary64 model leaves open. No statement about that
  scenario is made beyond the two evaluations of the guard.
\<close>

lemma guard_edge_exact:
  "perturbedEnergy \<lparr>energy = 60001 / 10000, barrierHeight = 6, barrierWidth = L, mass = m\<rparr>
     = 60001 / 10000"
  by (simp add: perturbedEnergy_def)

lemma guard_edge_binary64:
  "perturbedEnergy \<lparr>energy = 6 + 28147497671 / 2 ^ 48, barrierHeight = 6, barrierWidth = L, mass = m\<rparr>
     = 6 + 28147497671 / 2 ^ 48 + 1 / 10 ^ 3"
  by (simp add: perturbedEnergy_def)

text \<open>
  C6. The flag \<open>isTunneling\<close> returned by \<open>solveSchrodinger\<close> equals \<open>E' < V0\<close>, where
  \<open>E'\<close> is the energy after the degeneracy guard: the branch taken matches the sign of
  \<open>E' - V0\<close>. This holds for every parameter set, valid or not.
\<close>

theorem isTunneling_matches_branch:
  "isTunneling (solveSchrodinger params) = (perturbedEnergy params < barrierHeight params)"
  by (simp add: solveSchrodinger_branch tunnelingCase_def scatteringCase_def Let_def)

section \<open>Exact model: the probability and the time phase\<close>



section \<open>The probability to the left of the barrier\<close>

lemma to_complex_add: "to_complex (add a b) = to_complex a + to_complex b"
  by (simp add: to_complex_def add_def complex_eq_iff)

lemma to_complex_phase: "to_complex \<lparr>re = cos a, im = sin a\<rparr> = cis a"
  by (simp add: to_complex_def complex_eq_iff)


lemma exp_one_ge_two: "2 \<le> exp (1::real)"
  using exp_ge_add_one_self [of "1::real"] by simp

lemma tanh_one_bounds: "3 / 5 \<le> sinh (1::real) / cosh 1" "sinh (1::real) / cosh 1 < 1"
proof -
  define e where "e = exp (1::real)"
  have e: "2 \<le> e" by (simp add: e_def exp_one_ge_two)
  have s: "sinh (1::real) = (e - 1 / e) / 2"
    unfolding sinh_field_def e_def exp_minus by (simp add: inverse_eq_divide)
  have c: "cosh (1::real) = (e + 1 / e) / 2"
    unfolding cosh_field_def e_def exp_minus by (simp add: inverse_eq_divide)
  have "4 \<le> e * e"
    using e mult_mono [of 2 e 2 e] by simp
  then have "3 * (e * e + 1) \<le> 5 * (e * e - 1)" by simp
  then have "3 * ((e + 1 / e) / 2) \<le> 5 * ((e - 1 / e) / 2)"
    using e by (simp add: field_simps)
  then have "3 * cosh (1::real) \<le> 5 * sinh 1"
    by (simp only: s c)
  then show "3 / 5 \<le> sinh (1::real) / cosh 1"
    by (simp add: field_simps)
  show "sinh (1::real) / cosh 1 < 1"
    using sinh_less_cosh_real [of 1] by simp
qed










section \<open>Continuity at the interfaces\<close>

lemma to_complex_pair: "to_complex \<lparr>re = a, im = b\<rparr> = Complex a b"
  by (simp add: to_complex_def)

lemma psiT_at_complex:
  "to_complex (psiT_at x time params coeffs) =
     to_complex (spatialPsi x params coeffs) * cis (- energy params * time)"
  by (simp only: psiT_at_def Let_def to_complex_mul to_complex_phase)

lemma half_sum:
  "add \<lparr>re = re (sub A B) / 2, im = im (sub A B) / 2\<rparr>
       \<lparr>re = re (add A B) / 2, im = im (add A B) / 2\<rparr> = A"
  "add \<lparr>re = re (add A B) / 2, im = im (add A B) / 2\<rparr>
       \<lparr>re = re (sub A B) / 2, im = im (sub A B) / 2\<rparr> = A"
  by (simp_all add: add_def sub_def field_simps)

lemma interior_coefficients_sum:
  "add (c1 (solveSchrodinger params)) (c2 (solveSchrodinger params))
     = add \<lparr>re = 1, im = 0\<rparr> (r (solveSchrodinger params))"
proof (cases "perturbedEnergy params < barrierHeight params")
  case True
  then show ?thesis
    by (simp only: solveSchrodinger_branch if_True tunnelingCase_def Let_def
        WaveCoefficients.select_convs half_sum)
next
  case False
  then show ?thesis
    by (simp only: solveSchrodinger_branch if_False scatteringCase_def Let_def
        WaveCoefficients.select_convs half_sum)
qed

lemma spatialPsi_at_zero:
  assumes "0 \<le> barrierWidth params"
  shows "spatialPsi 0 params coeffs = add (c1 coeffs) (c2 coeffs)"
  using assms by (cases "c1 coeffs"; cases "c2 coeffs") (simp add: spatialPsi_def mul_def add_def)

text \<open>The interface at \<open>x = 0\<close>: the region-I values tend to the interior value at \<open>0\<close>.\<close>

lemma left_interface_continuous:
  assumes "0 \<le> barrierWidth params"
  shows "((\<lambda>x. to_complex (psiT_at x time params (solveSchrodinger params)))
            \<longlongrightarrow> to_complex (psiT_at 0 time params (solveSchrodinger params))) (at_left 0)"
proof -
  define S where "S = solveSchrodinger params"
  define R where "R = to_complex (r S)"
  define k where "k = k1 S"
  define Ph where "Ph = cis (- energy params * time)"
  define g where "g x = (Complex (cos (k * x)) (sin (k * x))
                          + R * Complex (cos (- k * x)) (sin (- k * x))) * Ph" for x
  have lim: "(g \<longlongrightarrow> g 0) (at_left 0)"
    unfolding g_def by (intro tendsto_intros)
  have ev: "eventually (\<lambda>x. to_complex (psiT_at x time params S) = g x) (at_left 0)"
  proof -
    have "eventually (\<lambda>x::real. x < 0) (at_left 0)"
      by (simp add: eventually_at_filter)
    then show ?thesis
    proof (rule eventually_mono)
      fix x :: real
      assume "x < 0"
      then show "to_complex (psiT_at x time params S) = g x"
        by (simp only: psiT_at_complex spatialPsi_def Let_def if_True to_complex_add
            to_complex_mul to_complex_pair g_def R_def k_def Ph_def)
    qed
  qed
  have "to_complex (psiT_at 0 time params S) = (1 + R) * Ph"
    unfolding psiT_at_complex spatialPsi_at_zero [OF assms] S_def interior_coefficients_sum
    by (simp add: to_complex_add to_complex_pair R_def S_def Ph_def complex_eq_iff)
  also have "\<dots> = g 0"
    by (simp add: g_def complex_eq_iff)
  finally have g0: "to_complex (psiT_at 0 time params S) = g 0" .
  show ?thesis
    unfolding S_def [symmetric] g0 using lim ev by (simp add: tendsto_cong)
qed


lemma jumpScenario_solution:
  "solveSchrodinger jumpScenario =
     \<lparr>r = \<lparr>re = 0, im = sinh 1 / cosh 1\<rparr>,
      t = \<lparr>re = cos 1 / cosh 1, im = - (sin 1 / cosh 1)\<rparr>,
      c1 = \<lparr>re = (1 - sinh 1 / cosh 1) / 2, im = (sinh 1 / cosh 1 - 1) / 2\<rparr>,
      c2 = \<lparr>re = (1 + sinh 1 / cosh 1) / 2, im = (sinh 1 / cosh 1 + 1) / 2\<rparr>,
      k1 = 1, k2 = 1, isTunneling = True,
      transmissionProb = 1 / (1 + (sinh 1) ^ 2)\<rparr>"
  by (simp add: jumpScenario_def solveSchrodinger_branch perturbedEnergy_def
      tunnelingCase_def Let_def hbar_def div_c_def add_def sub_def mul_def)

text \<open>
  C4. The claim asks for a wavefunction that is continuous at \<open>x = 0\<close> and at \<open>x = L\<close>.
  At \<open>x = 0\<close> it is (lemma \<open>left_interface_continuous\<close>): \<open>c1 + c2 = 1 + r\<close> by
  construction. At \<open>x = L\<close> it is not: for \<open>E = 1/2\<close>, \<open>V0 = 1\<close>, \<open>L = 1\<close>, \<open>m = 1\<close> and
  every time, the region-III values tend to a limit from the right of \<open>L\<close>, and the
  interior value at \<open>L\<close> is at distance at least one half from it. Matching at \<open>x = L\<close>
  needs \<open>r = -i gamma_plus sinh(kappa L) / D\<close>; the source computes the opposite sign.
\<close>

theorem right_interface_jump:
  "\<exists>l. ((\<lambda>x. to_complex (psiT_at x time jumpScenario (solveSchrodinger jumpScenario)))
            \<longlongrightarrow> l) (at_right (barrierWidth jumpScenario)) \<and>
       1 / 2 \<le> cmod (to_complex (psiT_at (barrierWidth jumpScenario) time jumpScenario
                                  (solveSchrodinger jumpScenario)) - l)"
proof -
  define S where "S = solveSchrodinger jumpScenario"
  define T where "T = sinh (1::real) / cosh 1"
  define Ph where "Ph = cis (- energy jumpScenario * time)"
  define tc where "tc = Complex (cos 1 / cosh 1) (- (sin 1 / cosh 1))"
  define g where "g x = tc * Complex (cos (1 * x)) (sin (1 * x)) * Ph" for x
  define Psi where "Psi = Complex ((1 - T) / 2 * exp (- 1) + (1 + T) / 2 * exp 1)
                                   ((T - 1) / 2 * exp (- 1) + (T + 1) / 2 * exp 1)"
  have L: "barrierWidth jumpScenario = 1"
    by (simp add: jumpScenario_def)
  have lim: "(g \<longlongrightarrow> g 1) (at_right 1)"
    unfolding g_def by (intro tendsto_intros)
  have ev: "eventually (\<lambda>x. to_complex (psiT_at x time jumpScenario S) = g x) (at_right 1)"
  proof -
    have "eventually (\<lambda>x::real. 1 < x) (at_right 1)"
      by (simp add: eventually_at_filter)
    then show ?thesis
    proof (rule eventually_mono)
      fix x :: real
      assume "1 < x"
      then have "spatialPsi x jumpScenario S
                 = mul \<lparr>re = cos 1 / cosh 1, im = - (sin 1 / cosh 1)\<rparr>
                       \<lparr>re = cos (1 * x), im = sin (1 * x)\<rparr>"
        by (simp add: spatialPsi_def S_def jumpScenario_solution L)
      then show "to_complex (psiT_at x time jumpScenario S) = g x"
        by (simp only: psiT_at_complex to_complex_mul to_complex_pair g_def tc_def Ph_def)
    qed
  qed
  have at_L: "to_complex (psiT_at 1 time jumpScenario S) = Psi * Ph"
  proof -
    have "spatialPsi 1 jumpScenario S
          = \<lparr>re = (1 - T) / 2 * exp (- 1) + (1 + T) / 2 * exp 1,
             im = (T - 1) / 2 * exp (- 1) + (T + 1) / 2 * exp 1\<rparr>"
      by (simp add: spatialPsi_def S_def jumpScenario_solution L mul_def add_def T_def)
    then show ?thesis
      by (simp only: psiT_at_complex to_complex_pair Psi_def Ph_def)
  qed
  have im_g: "Im (tc * Complex (cos 1) (sin 1)) = 0"
    by (simp add: tc_def)
  have T: "0 \<le> T" "T < 1"
    using tanh_one_bounds by (simp_all add: T_def)
  have e: "2 \<le> exp (1::real)"
    by (rule exp_one_ge_two)
  have ei: "0 < exp (- 1 :: real)" "exp (- 1 :: real) \<le> 1 / 2"
    using e by (simp_all add: exp_minus inverse_eq_divide field_simps)
  have im_Psi: "3 / 4 \<le> Im Psi"
  proof -
    have a: "- (1 / 4) \<le> (T - 1) / 2 * exp (- 1)"
    proof -
      have "(1 - T) / 2 * exp (- 1) \<le> 1 / 2 * (1 / 2)"
        using T ei by (intro mult_mono) simp_all
      then show ?thesis by (simp add: algebra_simps)
    qed
    have b: "1 / 2 * 2 \<le> (T + 1) / 2 * exp 1"
      using T e by (intro mult_mono) simp_all
    have "Im Psi = (T - 1) / 2 * exp (- 1) + (T + 1) / 2 * exp 1"
      unfolding Psi_def by (rule complex.sel)
    then show ?thesis
      using add_mono [OF a b] by simp
  qed
  have "3 / 4 \<le> \<bar>Im (Psi - tc * Complex (cos 1) (sin 1))\<bar>"
    using im_Psi im_g by simp
  also have "\<dots> \<le> cmod (Psi - tc * Complex (cos 1) (sin 1))"
    by (rule abs_Im_le_cmod)
  also have "\<dots> = cmod ((Psi - tc * Complex (cos 1) (sin 1)) * Ph)"
    by (simp add: norm_mult Ph_def)
  also have "\<dots> = cmod (to_complex (psiT_at 1 time jumpScenario S) - g 1)"
    by (simp add: at_L g_def algebra_simps)
  finally have gap: "1 / 2 \<le> cmod (to_complex (psiT_at 1 time jumpScenario S) - g 1)"
    by simp
  have "((\<lambda>x. to_complex (psiT_at x time jumpScenario S)) \<longlongrightarrow> g 1) (at_right 1)"
    using lim ev by (simp add: tendsto_cong)
  then show ?thesis
    unfolding L S_def [symmetric] using gap by blast
qed

end
